theory Spec2Isabelle
  imports Main
begin

section \<open>The plugin \<open>.opencode/plugin/dev-server-hmr.ts\<close>\<close>

text \<open>
  The plugin registers two hooks with its host: \<open>event\<close>, which on a
  \<open>session.idle\<close> event runs \<open>pnpm build\<close>, feeds a failure back into the
  session or publishes a release, and \<open>chat.message\<close>, which reports the status
  \<open>Pending\<close>. Everything the hooks do to the outside (shell commands, file access,
  calls of the session client, console output) is recorded in a trace of effects, in
  the order of the source; what the outside answers is read from a record
  \<open>world\<close>. A rejected promise or a thrown exception is a value of type \<open>error\<close>.
\<close>

subsection \<open>Values\<close>

datatype status = Errored | Active | Pending

datatype error = ShellError | FsError | SyntaxError | TypeError | ClientError | ZodError

text \<open>
  A parsed JSON document. The hooks never look inside a number, so a number keeps the
  text of its literal. An object is the list of its properties in insertion order.
\<close>

datatype json =
    JNull
  | JBool bool
  | JNum string
  | JStr string
  | JArr "json list"
  | JObj "(string \<times> json) list"

datatype effect =
    Shell "string list"
  | SessionPrompt string string
  | SessionGet string
  | FsReadFile string
  | FsWriteFile string json
  | HttpPut string json "(string \<times> string) list"
  | UpdateAppStatus status
  | ConsoleLog string
  | ConsoleError string

text \<open>
  \<open>Shell\<close> carries the words of a command run through \<open>$\<close>; \<open>SessionPrompt\<close> the
  session id and the text of the single text part; \<open>FsWriteFile\<close> the path and the
  value whose \<open>JSON.stringify(_, null, 2)\<close> is written; \<open>HttpPut\<close> the path, the
  value whose \<open>JSON.stringify\<close> is the body, and the headers; \<open>UpdateAppStatus\<close>
  marks a call of \<open>updateAppStatus\<close>.
\<close>

text \<open>
  The value bound to \<open>result\<close>: the output of \<open>pnpm build\<close>, or, through
  \<open>.catch((error) => error)\<close>, whatever the command rejected with. Either property
  may be undefined.
\<close>

record build_result =
  exitCode :: "int option"
  stderr :: "string option"

record session_info =
  title :: "string option"

record session_response =
  data :: "session_info option"

record event =
  etype :: string
  sessionID :: string

text \<open>The property \<open>client.session["tries"]\<close>: undefined or a number.\<close>

record client_session =
  tries :: "nat option"

text \<open>
  The answers of the collaborators during one run of a hook.
  \<open>w_manifest\<close> is the outcome of reading \<open>package.json\<close> and parsing its text
  (\<open>FsError\<close> when the read rejects, \<open>SyntaxError\<close> when \<open>JSON.parse\<close> throws);
  \<open>w_shell\<close> tells whether a command run after the build exits with 0;
  \<open>w_numText s\<close> is the text of \<open>Number(s)\<close> and \<open>w_succText s\<close> the text of
  \<open>Number(s) + 1\<close> in a template string, for those strings \<open>s\<close> that are not a
  run of decimal digits with a value up to \<open>Number.MAX_SAFE_INTEGER\<close>.
\<close>

record world =
  w_build :: build_result
  w_prompt :: "error + unit"
  w_manifest :: "error + json"
  w_session :: "error + session_response"
  w_shell :: "string list \<Rightarrow> bool"
  w_writeFile :: "error + unit"
  w_numText :: "string \<Rightarrow> string"
  w_succText :: "string \<Rightarrow> string"

datatype completion = Resolved | Rejected error

subsection \<open>Sequencing effects that may throw\<close>

type_synonym 'a io = "effect list \<times> (error + 'a)"

definition io_return :: "'a \<Rightarrow> 'a io" where
  "io_return x = ([], Inr x)"

definition perform :: "effect \<Rightarrow> error + 'a \<Rightarrow> 'a io" where
  "perform e r = ([e], r)"

definition io_bind :: "'a io \<Rightarrow> ('a \<Rightarrow> 'b io) \<Rightarrow> 'b io" where
  "io_bind m f =
     (case m of
        (t, Inl e) \<Rightarrow> (t, Inl e)
      | (t, Inr x) \<Rightarrow> (case f x of (t', r) \<Rightarrow> (t @ t', r)))"

subsection \<open>Module initialisation and \<open>updateAppStatus\<close>\<close>

text \<open>
  Lines 6 to 13: the environment variable
  \<open>TAYLORDB_VM_ORCHESTRATION_STATUS_UPDATE_URL\<close> is validated with \<open>z.string()\<close>;
  \<open>parse\<close> throws when it is undefined, and the module does not load.
\<close>

definition module_init :: "string option \<Rightarrow> error + string" where
  "module_init env =
     (case env of None \<Rightarrow> Inl ZodError | Some url \<Rightarrow> Inr url)"

text \<open>Lines 19 to 31: the body of \<open>updateAppStatus\<close> is commented out.\<close>

definition updateAppStatus :: "status \<Rightarrow> unit io" where
  "updateAppStatus s = io_return ()"

text \<open>Loading the module in an environment and then calling \<open>updateAppStatus\<close>.\<close>

definition load_then_updateAppStatus :: "string option \<Rightarrow> status \<Rightarrow> unit io" where
  "load_then_updateAppStatus env s =
     (case module_init env of
        Inl e \<Rightarrow> ([], Inl e)
      | Inr url \<Rightarrow> updateAppStatus s)"

definition status_name :: "status \<Rightarrow> string" where
  "status_name s =
     (case s of Errored \<Rightarrow> ''Errored'' | Active \<Rightarrow> ''Active'' | Pending \<Rightarrow> ''Pending'')"

subsection \<open>The version string\<close>

text \<open>\<open>version.split(".")\<close>: the pieces between the dots; never an empty array.\<close>

fun split_dot :: "string \<Rightarrow> string list" where
  "split_dot [] = [[]]"
| "split_dot (c # cs) =
     (if c = CHR ''.'' then [] # split_dot cs
      else (case split_dot cs of
              [] \<Rightarrow> [[c]]
            | p # ps \<Rightarrow> (c # p) # ps))"

definition is_digit :: "char \<Rightarrow> bool" where
  "is_digit c = (48 \<le> (of_char c :: nat) \<and> (of_char c :: nat) \<le> 57)"

definition digit_val :: "char \<Rightarrow> nat" where
  "digit_val c = of_char c - 48"

definition digits_val :: "string \<Rightarrow> nat" where
  "digits_val s = foldl (\<lambda>a c. 10 * a + digit_val c) 0 s"

definition MAX_SAFE_INTEGER :: nat where
  "MAX_SAFE_INTEGER = 9007199254740991"

text \<open>
  The strings on which \<open>Number\<close> is modelled exactly: runs of decimal digits (the
  empty string converts to 0) whose value and its successor are integers that a
  double holds exactly.
\<close>

definition plain_decimal :: "string \<Rightarrow> bool" where
  "plain_decimal s = (list_all is_digit s \<and> digits_val s \<le> MAX_SAFE_INTEGER)"

definition digit_char :: "nat \<Rightarrow> char" where
  "digit_char d = ''0123456789'' ! d"

text \<open>The text of a non-negative integer number in a template string.\<close>

fun decimal_text :: "nat \<Rightarrow> string" where
  "decimal_text n =
     (if n < 10 then [digit_char n]
      else decimal_text (n div 10) @ [digit_char (n mod 10)])"

declare decimal_text.simps [simp del]

definition nth_opt :: "'a list \<Rightarrow> nat \<Rightarrow> 'a option" where
  "nth_opt xs i = (if i < length xs then Some (xs ! i) else None)"

text \<open>\<open>${x}\<close> for an element \<open>x\<close> of \<open>split(".").map(Number)\<close>, or for undefined.\<close>

definition number_text :: "world \<Rightarrow> string option \<Rightarrow> string" where
  "number_text w p =
     (case p of
        None \<Rightarrow> ''undefined''
      | Some s \<Rightarrow> if plain_decimal s then decimal_text (digits_val s) else w_numText w s)"

text \<open>\<open>${x + 1}\<close> for such an element; undefined plus one is NaN.\<close>

definition succ_text :: "world \<Rightarrow> string option \<Rightarrow> string" where
  "succ_text w p =
     (case p of
        None \<Rightarrow> ''NaN''
      | Some s \<Rightarrow> if plain_decimal s then decimal_text (digits_val s + 1) else w_succText w s)"

text \<open>Lines 72 to 75.\<close>

definition newVersion :: "world \<Rightarrow> string \<Rightarrow> string" where
  "newVersion w version =
     (let parts = split_dot version;
          major = nth_opt parts 0;
          minor = nth_opt parts 1;
          patch = nth_opt parts 2
      in number_text w major @ ''.'' @ number_text w minor @ ''.'' @ succ_text w patch)"

subsection \<open>The manifest\<close>

text \<open>
  \<open>packageJson.version.split\<close>: reading a property of null throws, a property that
  is missing is undefined, and only a string has \<open>split\<close>.
\<close>

definition version_prop :: "json \<Rightarrow> error + ((string \<times> json) list \<times> string)" where
  "version_prop packageJson =
     (case packageJson of
        JObj props \<Rightarrow>
          (case map_of props ''version'' of
             Some (JStr v) \<Rightarrow> Inr (props, v)
           | _ \<Rightarrow> Inl TypeError)
      | _ \<Rightarrow> Inl TypeError)"

text \<open>Assigning a property: an existing one keeps its place, a new one goes last.\<close>

fun set_prop :: "string \<Rightarrow> json \<Rightarrow> (string \<times> json) list \<Rightarrow> (string \<times> json) list" where
  "set_prop k v [] = [(k, v)]"
| "set_prop k v (p # ps) = (if fst p = k then (k, v) # ps else p # set_prop k v ps)"

subsection \<open>The release\<close>

text \<open>Lines 81 and 82: \<open>session.data?.title ?? `feat: release version v${newVersion}`\<close>.\<close>

definition commitMessage :: "session_response \<Rightarrow> string \<Rightarrow> string" where
  "commitMessage session nv =
     (case data session of
        None \<Rightarrow> ''feat: release version v'' @ nv
      | Some d \<Rightarrow>
          (case title d of
             None \<Rightarrow> ''feat: release version v'' @ nv
           | Some t \<Rightarrow> t))"

definition shell :: "world \<Rightarrow> string list \<Rightarrow> unit io" where
  "shell w cmd = perform (Shell cmd) (if w_shell w cmd then Inr () else Inl ShellError)"

text \<open>Lines 69 to 96, the body of the \<open>try\<close>.\<close>

definition try_body :: "world \<Rightarrow> string \<Rightarrow> unit io" where
  "try_body w sid =
     io_bind (perform (FsReadFile ''package.json'') (w_manifest w)) (\<lambda>packageJson.
     io_bind ([], version_prop packageJson) (\<lambda>(props, version).
     io_bind (perform (SessionGet sid) (w_session w)) (\<lambda>session.
     io_bind (shell w [''git'', ''config'', ''user.name'', ''Taylor AI'']) (\<lambda>_.
     io_bind (shell w [''git'', ''config'', ''user.email'', ''ai@taylordb.io'']) (\<lambda>_.
     io_bind (shell w [''git'', ''add'', ''.'']) (\<lambda>_.
     io_bind (shell w [''git'', ''commit'', ''-m'',
                       commitMessage session (newVersion w version)]) (\<lambda>_.
     io_bind (shell w [''git'', ''tag'', ''v'' @ newVersion w version]) (\<lambda>_.
     io_bind (shell w [''git'', ''push'', ''origin'', ''main'', ''--tags'']) (\<lambda>_.
     perform (FsWriteFile ''package.json''
                (JObj (set_prop ''version'' (JStr (newVersion w version)) props)))
             (w_writeFile w))))))))))"

text \<open>Lines 68 to 99: the \<open>catch\<close> logs and goes on.\<close>

definition try_catch :: "world \<Rightarrow> string \<Rightarrow> effect list" where
  "try_catch w sid =
     (case try_body w sid of
        (t, Inl e) \<Rightarrow> t @ [ConsoleError ''Failed to push to git'']
      | (t, Inr u) \<Rightarrow> t)"

text \<open>Lines 68 to 103: what follows the \<open>if\<close> on the exit code.\<close>

definition release_and_activate :: "world \<Rightarrow> string \<Rightarrow> effect list \<times> completion" where
  "release_and_activate w sid =
     (case updateAppStatus Active of
        (t, Inl e) \<Rightarrow> (try_catch w sid @ [UpdateAppStatus Active] @ t, Rejected e)
      | (t, Inr u) \<Rightarrow>
          (try_catch w sid @ [UpdateAppStatus Active] @ t
             @ [ConsoleLog ''CHANGE STATUS TO ACTIVE''], Resolved))"

subsection \<open>The retry counter\<close>

text \<open>\<open>!client.session["tries"]\<close>: true for undefined and for 0.\<close>

definition not_tries :: "client_session \<Rightarrow> bool" where
  "not_tries cs = (case tries cs of None \<Rightarrow> True | Some n \<Rightarrow> n = 0)"

text \<open>Lines 41 to 45.\<close>

definition update_tries :: "client_session \<Rightarrow> client_session" where
  "update_tries cs =
     (if not_tries cs then cs\<lparr>tries := Some 0\<rparr>
      else cs\<lparr>tries := map_option Suc (tries cs)\<rparr>)"

text \<open>\<open>client.session["tries"] > 3\<close>.\<close>

definition tries_gt3 :: "client_session \<Rightarrow> bool" where
  "tries_gt3 cs = (case tries cs of None \<Rightarrow> False | Some n \<Rightarrow> 3 < n)"

definition prompt_text :: "string \<Rightarrow> string" where
  "prompt_text err =
     ''While building the project, the following error occurred:'' @ [CHR 0x0A, CHR 0x0A]
       @ err @ [CHR 0x0A, CHR 0x0A] @ ''Please fix the error and try again.''"

subsection \<open>The hooks\<close>

text \<open>
  Lines 40 to 66, the branch of a failed build. The result is the counter, the
  effects, and \<open>Some\<close> completion when the handler ends in the branch, \<open>None\<close> when
  control leaves the \<open>if\<close> and goes on to line 68.
\<close>

definition failed_build ::
  "client_session \<Rightarrow> world \<Rightarrow> string \<Rightarrow> client_session \<times> effect list \<times> completion option" where
  "failed_build cs w sid =
     (let cs' = update_tries cs in
      if tries_gt3 cs' then
        (case updateAppStatus Errored of
           (t, Inl e) \<Rightarrow> (cs', [UpdateAppStatus Errored] @ t, Some (Rejected e))
         | (t, Inr u) \<Rightarrow>
             (cs', [UpdateAppStatus Errored] @ t @ [ConsoleLog ''CHANGE STATUS TO ERRORED''],
              Some Resolved))
      else
        (case stderr (w_build w) of
           None \<Rightarrow> (cs', [], Some (Rejected TypeError))
         | Some err \<Rightarrow>
             (case w_prompt w of
                Inl e \<Rightarrow> (cs', [SessionPrompt sid (prompt_text err)], Some (Rejected e))
              | Inr u \<Rightarrow> (cs', [SessionPrompt sid (prompt_text err)], None))))"

text \<open>Lines 35 to 104, the \<open>event\<close> hook.\<close>

definition event_hook ::
  "client_session \<Rightarrow> world \<Rightarrow> event \<Rightarrow> client_session \<times> effect list \<times> completion" where
  "event_hook cs w ev =
     (if etype ev \<noteq> ''session.idle'' then (cs, [], Resolved)
      else if exitCode (w_build w) \<noteq> Some 0 then
        (case failed_build cs w (sessionID ev) of
           (cs', t, Some c) \<Rightarrow> (cs', [Shell [''pnpm'', ''build'']] @ t, c)
         | (cs', t, None) \<Rightarrow>
             (case release_and_activate w (sessionID ev) of
                (t', c) \<Rightarrow> (cs', [Shell [''pnpm'', ''build'']] @ t @ t', c)))
      else
        (case release_and_activate w (sessionID ev) of
           (t', c) \<Rightarrow> (cs, [Shell [''pnpm'', ''build'']] @ t', c)))"

text \<open>Lines 106 to 110, the \<open>chat.message\<close> hook.\<close>

definition chat_message_hook :: "effect list \<times> completion" where
  "chat_message_hook =
     (case updateAppStatus Pending of
        (t, Inl e) \<Rightarrow> ([UpdateAppStatus Pending] @ t, Rejected e)
      | (t, Inr u) \<Rightarrow>
          ([UpdateAppStatus Pending] @ t @ [ConsoleLog ''CHANGE STATUS TO PENDING''], Resolved))"

text \<open>
  The host delivering a sequence of events to the \<open>event\<close> hook, one after the other
  on the same client: the final counter and the trace and completion of each run.
\<close>

fun deliver ::
  "client_session \<Rightarrow> (world \<times> event) list \<Rightarrow> client_session \<times> (effect list \<times> completion) list" where
  "deliver cs [] = (cs, [])"
| "deliver cs ((w, ev) # rest) =
     (case event_hook cs w ev of
        (cs', t, c) \<Rightarrow> (case deliver cs' rest of (cs'', runs) \<Rightarrow> (cs'', (t, c) # runs)))"

subsection \<open>Example inputs\<close>

definition fresh :: client_session where
  "fresh = \<lparr>tries = None\<rparr>"

definition idle :: "string \<Rightarrow> event" where
  "idle sid = \<lparr>etype = ''session.idle'', sessionID = sid\<rparr>"

definition manifest_of :: "string \<Rightarrow> json" where
  "manifest_of v =
     JObj [(''name'', JStr ''app''), (''version'', JStr v), (''private'', JBool True)]"

text \<open>A world in which the build ends as given and every other collaborator succeeds.\<close>

definition world_with :: "build_result \<Rightarrow> string \<Rightarrow> string option \<Rightarrow> world" where
  "world_with b v t =
     \<lparr>w_build = b,
      w_prompt = Inr (),
      w_manifest = Inr (manifest_of v),
      w_session = Inr \<lparr>data = Some \<lparr>title = t\<rparr>\<rparr>,
      w_shell = (\<lambda>cmd. True),
      w_writeFile = Inr (),
      w_numText = (\<lambda>s. ''NaN''),
      w_succText = (\<lambda>s. ''NaN'')\<rparr>"

definition build_ok :: build_result where
  "build_ok = \<lparr>exitCode = Some 0, stderr = Some ''''\<rparr>"

definition build_fails :: build_result where
  "build_fails = \<lparr>exitCode = Some 1, stderr = Some ''type error on line 5''\<rparr>"

text \<open>As \<open>world_with\<close>, but the push is rejected.\<close>

definition world_push_rejected :: world where
  "world_push_rejected =
     (world_with build_ok ''1.2.3'' None)
       \<lparr>w_shell := (\<lambda>cmd. cmd \<noteq> [''git'', ''push'', ''origin'', ''main'', ''--tags''])\<rparr>"

text \<open>Five \<open>session.idle\<close> events in a row, each with a failing build.\<close>

definition five_failures :: "(world \<times> event) list" where
  "five_failures =
     [(world_with build_fails ''1.2.3'' None, idle ''s1''),
      (world_with build_fails ''1.2.3'' None, idle ''s1''),
      (world_with build_fails ''1.2.3'' None, idle ''s1''),
      (world_with build_fails ''1.2.3'' None, idle ''s1''),
      (world_with build_fails ''1.2.3'' None, idle ''s1'')]"

text \<open>
  The effects of one run of the \<open>event\<close> hook for session \<open>s1\<close> on a failing
  build with every other collaborator succeeding, as lemma \<open>failing_run\<close> shows.
\<close>

definition failing_trace :: "effect list" where
  "failing_trace =
     [Shell [''pnpm'', ''build''],
      SessionPrompt ''s1'' (prompt_text ''type error on line 5''),
      FsReadFile ''package.json'', SessionGet ''s1'',
      Shell [''git'', ''config'', ''user.name'', ''Taylor AI''],
      Shell [''git'', ''config'', ''user.email'', ''ai@taylordb.io''],
      Shell [''git'', ''add'', ''.''],
      Shell [''git'', ''commit'', ''-m'', ''feat: release version v1.2.4''],
      Shell [''git'', ''tag'', ''v1.2.4''],
      Shell [''git'', ''push'', ''origin'', ''main'', ''--tags''],
      FsWriteFile ''package.json''
        (JObj [(''name'', JStr ''app''), (''version'', JStr ''1.2.4''), (''private'', JBool True)]),
      UpdateAppStatus Active, ConsoleLog ''CHANGE STATUS TO ACTIVE'']"

section \<open>Facts about the model\<close>

subsection \<open>Decimal text\<close>

lemma lt10_cases: "d < 10 \<Longrightarrow> d \<in> {0, 1, 2, 3, 4, 5, 6, 7, 8, 9::nat}"
  by auto

lemma digit_char_is_digit: "d < 10 \<Longrightarrow> is_digit (digit_char d)"
  by (drule lt10_cases) (auto simp: digit_char_def is_digit_def)

lemma digit_val_digit_char: "d < 10 \<Longrightarrow> digit_val (digit_char d) = d"
  by (drule lt10_cases) (auto simp: digit_char_def digit_val_def)

lemma is_digit_not_dot: "is_digit c \<Longrightarrow> c \<noteq> CHR ''.''"
  by (auto simp: is_digit_def)

lemma digits_val_snoc: "digits_val (s @ [c]) = 10 * digits_val s + digit_val c"
  by (simp add: digits_val_def)

lemma decimal_text_digits: "list_all is_digit (decimal_text n)"
proof (induction n rule: decimal_text.induct)
  case (1 n)
  show ?case
  proof (cases "n < 10")
    case True
    then show ?thesis
      by (simp add: decimal_text.simps [of n] digit_char_is_digit)
  next
    case False
    with 1 show ?thesis
      by (simp add: decimal_text.simps [of n] digit_char_is_digit)
  qed
qed

lemma digits_val_decimal_text: "digits_val (decimal_text n) = n"
proof (induction n rule: decimal_text.induct)
  case (1 n)
  show ?case
  proof (cases "n < 10")
    case True
    then show ?thesis
      by (simp add: decimal_text.simps [of n] digits_val_def digit_val_digit_char)
  next
    case False
    with 1 show ?thesis
      by (simp add: decimal_text.simps [of n] digits_val_snoc digit_val_digit_char)
  qed
qed

lemma split_dot_no_dot: "CHR ''.'' \<notin> set a \<Longrightarrow> split_dot a = [a]"
  by (induction a) auto

lemma split_dot_append: "CHR ''.'' \<notin> set a \<Longrightarrow> split_dot (a @ CHR ''.'' # r) = a # split_dot r"
  by (induction a) auto

lemma digits_no_dot: "list_all is_digit s \<Longrightarrow> CHR ''.'' \<notin> set s"
  by (auto simp: list_all_iff dest: is_digit_not_dot)

lemma split_dot_triple:
  "split_dot (decimal_text a @ ''.'' @ decimal_text b @ ''.'' @ decimal_text c)
     = [decimal_text a, decimal_text b, decimal_text c]"
  by (simp add: split_dot_append split_dot_no_dot digits_no_dot decimal_text_digits)

text \<open>
  On a version of at least three pieces, each of them plain decimal, the template
  string of line 75 is made of the first two numbers and the successor of the third.
\<close>

lemma newVersion_plain:
  assumes "split_dot v = major # minor # patch # others"
    and "plain_decimal major" and "plain_decimal minor" and "plain_decimal patch"
  shows "newVersion w v = decimal_text (digits_val major) @ ''.'' @ decimal_text (digits_val minor)
           @ ''.'' @ decimal_text (digits_val patch + 1)"
  using assms by (simp add: newVersion_def nth_opt_def number_text_def succ_text_def)

subsection \<open>Unfolding the hooks\<close>

lemmas version_defs = newVersion_def nth_opt_def number_text_def succ_text_def plain_decimal_def
  is_digit_def digits_val_def digit_val_def MAX_SAFE_INTEGER_def decimal_text.simps digit_char_def

lemmas body_defs = try_body_def io_bind_def perform_def shell_def version_prop_def
  commitMessage_def

lemmas example_defs = fresh_def idle_def manifest_of_def world_with_def build_ok_def
  build_fails_def world_push_rejected_def

lemma updateAppStatus_noop: "updateAppStatus s = ([], Inr ())"
  by (simp add: updateAppStatus_def io_return_def)

lemma release_and_activate_eq:
  "release_and_activate w sid =
     (try_catch w sid @ [UpdateAppStatus Active, ConsoleLog ''CHANGE STATUS TO ACTIVE''], Resolved)"
  by (simp add: release_and_activate_def updateAppStatus_noop)

lemma try_catch_eq:
  "try_catch w sid =
     fst (try_body w sid) @
       (case snd (try_body w sid) of
          Inl e \<Rightarrow> [ConsoleError ''Failed to push to git'']
        | Inr u \<Rightarrow> [])"
  by (simp add: try_catch_def split: prod.splits sum.splits)

subsection \<open>The manifest\<close>

lemma set_prop_others:
  "filter (\<lambda>p. fst p \<noteq> k) (set_prop k x props) = filter (\<lambda>p. fst p \<noteq> k) props"
  by (induction props) auto

lemma set_prop_keys: "map_of props k = Some old \<Longrightarrow> map fst (set_prop k x props) = map fst props"
  by (induction props) (auto split: if_splits)

lemma set_prop_lookup: "map_of (set_prop k x props) k = Some x"
  by (induction props) auto

subsection \<open>The trace of the release\<close>

lemma in_io_bind:
  "e \<in> set (fst (io_bind m f)) \<longleftrightarrow>
     e \<in> set (fst m) \<or> (\<exists>x. snd m = Inr x \<and> e \<in> set (fst (f x)))"
proof (cases m)
  case (Pair t r)
  then show ?thesis
    by (cases r) (auto simp: io_bind_def split: prod.splits)
qed

lemma try_body_quiet: "UpdateAppStatus s \<notin> set (fst (try_body w sid))"
  by (simp add: try_body_def in_io_bind shell_def perform_def)

lemma try_catch_quiet: "UpdateAppStatus s \<notin> set (try_catch w sid)"
proof (cases "try_body w sid")
  case (Pair t r)
  with try_body_quiet [of s w sid] show ?thesis
    by (cases r) (simp_all add: try_catch_def)
qed

lemma try_body_upto_commit:
  assumes "w_manifest w = Inr (JObj props)"
    and "map_of props ''version'' = Some (JStr v)"
    and "w_session w = Inr session"
    and "w_shell w [''git'', ''config'', ''user.name'', ''Taylor AI'']"
    and "w_shell w [''git'', ''config'', ''user.email'', ''ai@taylordb.io'']"
    and "w_shell w [''git'', ''add'', ''.'']"
  shows "\<exists>rest. fst (try_body w sid) =
           [FsReadFile ''package.json'', SessionGet sid,
            Shell [''git'', ''config'', ''user.name'', ''Taylor AI''],
            Shell [''git'', ''config'', ''user.email'', ''ai@taylordb.io''],
            Shell [''git'', ''add'', ''.''],
            Shell [''git'', ''commit'', ''-m'', commitMessage session (newVersion w v)]] @ rest
          \<and> set rest \<subseteq> {Shell [''git'', ''tag'', ''v'' @ newVersion w v],
                         Shell [''git'', ''push'', ''origin'', ''main'', ''--tags''],
                         FsWriteFile ''package.json''
                           (JObj (set_prop ''version'' (JStr (newVersion w v)) props))}"
  using assms
  by (simp add: try_body_def io_bind_def perform_def shell_def version_prop_def
        split: sum.splits)

subsection \<open>The counter\<close>

lemma fst_failed_build: "fst (failed_build cs w sid) = update_tries cs"
  by (simp add: failed_build_def Let_def updateAppStatus_noop split: option.splits sum.splits)

lemma event_hook_state:
  "fst (event_hook cs w ev) =
     (if etype ev = ''session.idle'' \<and> exitCode (w_build w) \<noteq> Some 0 then update_tries cs else cs)"
proof (cases "failed_build cs w (sessionID ev)")
  case (fields cs' t c)
  with fst_failed_build [of cs w "sessionID ev"] show ?thesis
    by (cases c) (simp_all add: event_hook_def release_and_activate_eq)
qed

text \<open>From undefined and from 0 the update of lines 41 to 45 gives 0.\<close>

lemma update_tries_stuck:
  "tries cs = None \<or> tries cs = Some 0 \<Longrightarrow> tries (update_tries cs) = Some 0"
  by (auto simp: update_tries_def not_tries_def)

lemma failed_build_quiet:
  assumes "tries cs = None \<or> tries cs = Some 0"
  shows "UpdateAppStatus Errored \<notin> set (fst (snd (failed_build cs w sid)))"
  using update_tries_stuck [OF assms]
  by (simp add: failed_build_def Let_def tries_gt3_def split: option.splits sum.splits)

lemma event_hook_quiet:
  assumes "tries cs = None \<or> tries cs = Some 0"
  shows "UpdateAppStatus Errored \<notin> set (fst (snd (event_hook cs w ev)))"
proof (cases "failed_build cs w (sessionID ev)")
  case (fields cs' t c)
  with failed_build_quiet [OF assms, of w "sessionID ev"] try_catch_quiet [of Errored w "sessionID ev"]
  show ?thesis
    by (cases c) (simp_all add: event_hook_def release_and_activate_eq)
qed

lemma event_hook_stuck:
  assumes "tries cs = None \<or> tries cs = Some 0"
  shows "tries (fst (event_hook cs w ev)) = None \<or> tries (fst (event_hook cs w ev)) = Some 0"
  using assms update_tries_stuck [OF assms] by (simp add: event_hook_state)

lemma deliver_quiet:
  "tries cs = None \<or> tries cs = Some 0 \<Longrightarrow>
     list_all (\<lambda>run. UpdateAppStatus Errored \<notin> set (fst run)) (snd (deliver cs evs))"
proof (induction evs arbitrary: cs)
  case Nil
  then show ?case by simp
next
  case (Cons a evs)
  obtain w ev where a: "a = (w, ev)" by (cases a)
  obtain cs' t c where h: "event_hook cs w ev = (cs', t, c)" by (cases "event_hook cs w ev")
  have q: "UpdateAppStatus Errored \<notin> set t"
    using event_hook_quiet [OF Cons.prems, of w ev] h by simp
  have s: "tries cs' = None \<or> tries cs' = Some 0"
    using event_hook_stuck [OF Cons.prems, of w ev] h by simp
  show ?case
    using Cons.IH [OF s] q by (cases "deliver cs' evs") (simp add: a h)
qed

text \<open>
  One run of the hook on a failing build (exit code 1, every other collaborator
  succeeding, manifest version 1.2.3, no title), from a counter that is undefined or 0.
\<close>

lemma failing_run:
  assumes "tries cs = None \<or> tries cs = Some 0"
  shows "event_hook cs (world_with build_fails ''1.2.3'' None) (idle ''s1'') =
           (\<lparr>tries = Some 0\<rparr>, failing_trace, Resolved)"
proof -
  have upd: "update_tries cs = \<lparr>tries = Some 0\<rparr>"
    using assms by (auto simp: update_tries_def not_tries_def)
  have body: "try_catch (world_with build_fails ''1.2.3'' None) ''s1'' =
      [FsReadFile ''package.json'', SessionGet ''s1'',
       Shell [''git'', ''config'', ''user.name'', ''Taylor AI''],
       Shell [''git'', ''config'', ''user.email'', ''ai@taylordb.io''],
       Shell [''git'', ''add'', ''.''],
       Shell [''git'', ''commit'', ''-m'', ''feat: release version v1.2.4''],
       Shell [''git'', ''tag'', ''v1.2.4''],
       Shell [''git'', ''push'', ''origin'', ''main'', ''--tags''],
       FsWriteFile ''package.json''
         (JObj [(''name'', JStr ''app''), (''version'', JStr ''1.2.4''), (''private'', JBool True)])]"
    by (simp add: try_catch_def body_defs example_defs version_defs)
  have failed: "failed_build cs (world_with build_fails ''1.2.3'' None) ''s1'' =
      (\<lparr>tries = Some 0\<rparr>, [SessionPrompt ''s1'' (prompt_text ''type error on line 5'')], None)"
    by (simp add: failed_build_def upd tries_gt3_def example_defs)
  have ev: "etype (idle ''s1'') = ''session.idle''" "sessionID (idle ''s1'') = ''s1''"
    "exitCode (w_build (world_with build_fails ''1.2.3'' None)) \<noteq> Some 0"
    by (simp_all add: example_defs)
  show ?thesis
    by (simp add: event_hook_def ev failed release_and_activate_eq body failing_trace_def)
qed

lemma deliver_state:
  "fst (deliver cs ((w, ev) # rest)) = fst (deliver (fst (event_hook cs w ev)) rest)"
  by (simp split: prod.splits)

section \<open>The claims\<close>

subsection \<open>C1: the retry budget\<close>

text \<open>
  C1 does not hold of the code. Line 41 tests the counter for truthiness, so a
  counter of 0 is set to 0 again and never reaches 4: from a fresh client no sequence
  of events makes the hook call \<open>updateAppStatus("Errored")\<close>. In particular, after
  five failed builds in a row the counter is 0 and each of the five runs, the fifth
  included, has sent the follow-up prompt and not reported \<open>Errored\<close>.
\<close>

theorem five_failures_never_errored:
  "list_all (\<lambda>run. UpdateAppStatus Errored \<notin> set (fst run)) (snd (deliver fresh evs))
   \<and> tries (fst (deliver fresh five_failures)) = Some 0
   \<and> length (snd (deliver fresh five_failures)) = 5
   \<and> list_all (\<lambda>run. SessionPrompt ''s1'' (prompt_text ''type error on line 5'') \<in> set (fst run)
                     \<and> UpdateAppStatus Errored \<notin> set (fst run))
       (snd (deliver fresh five_failures))"
proof -
  have general: "list_all (\<lambda>run. UpdateAppStatus Errored \<notin> set (fst run)) (snd (deliver fresh evs))"
    by (rule deliver_quiet) (simp add: fresh_def)
  have first: "event_hook fresh (world_with build_fails ''1.2.3'' None) (idle ''s1'')
      = (\<lparr>tries = Some 0\<rparr>, failing_trace, Resolved)"
    using failing_run [of fresh] by (simp add: fresh_def)
  have later: "event_hook \<lparr>tries = Some 0\<rparr> (world_with build_fails ''1.2.3'' None) (idle ''s1'')
      = (\<lparr>tries = Some 0\<rparr>, failing_trace, Resolved)"
    using failing_run [of "\<lparr>tries = Some 0\<rparr>"] by simp
  have runs: "deliver fresh five_failures =
      (\<lparr>tries = Some 0\<rparr>,
       [(failing_trace, Resolved), (failing_trace, Resolved), (failing_trace, Resolved),
        (failing_trace, Resolved), (failing_trace, Resolved)])"
    by (simp add: five_failures_def first later)
  have prompt: "SessionPrompt ''s1'' (prompt_text ''type error on line 5'') \<in> set failing_trace"
    by (simp add: failing_trace_def)
  have quiet: "UpdateAppStatus Errored \<notin> set failing_trace"
    by (simp add: failing_trace_def)
  show ?thesis
    using general by (simp add: runs prompt quiet)
qed

subsection \<open>C2: the update of the counter\<close>

text \<open>
  C2 does not hold of the code. When the entry exists with the value 0, a failed
  build does not increment it: the update of lines 41 to 45 maps 0 to 0, and so
  does a run of the hook on a failing build.
\<close>

theorem second_failure_keeps_zero:
  "update_tries \<lparr>tries = Some 0\<rparr> = \<lparr>tries = Some 0\<rparr>
   \<and> fst (event_hook \<lparr>tries = Some 0\<rparr> (world_with build_fails ''1.2.3'' None) (idle ''s1''))
       = \<lparr>tries = Some 0\<rparr>"
  by (simp add: event_hook_state update_tries_def not_tries_def example_defs)

subsection \<open>C3: the failure path\<close>

text \<open>
  C3 does not hold of the code. After the follow-up prompt of lines 55 to 65 there
  is no \<open>return\<close>: on a first failed build (exit code 1, stderr
  \<open>type error on line 5\<close>) the hook sends the prompt with that text and then goes
  on to commit, tag, push, rewrite the manifest and call
  \<open>updateAppStatus("Active")\<close>.
\<close>

theorem failed_build_still_releases:
  "event_hook fresh (world_with build_fails ''1.2.3'' None) (idle ''s1'') =
     (\<lparr>tries = Some 0\<rparr>,
      [Shell [''pnpm'', ''build''],
       SessionPrompt ''s1''
         (''While building the project, the following error occurred:'' @ [CHR 0x0A, CHR 0x0A]
            @ ''type error on line 5'' @ [CHR 0x0A, CHR 0x0A]
            @ ''Please fix the error and try again.''),
       FsReadFile ''package.json'', SessionGet ''s1'',
       Shell [''git'', ''config'', ''user.name'', ''Taylor AI''],
       Shell [''git'', ''config'', ''user.email'', ''ai@taylordb.io''],
       Shell [''git'', ''add'', ''.''],
       Shell [''git'', ''commit'', ''-m'', ''feat: release version v1.2.4''],
       Shell [''git'', ''tag'', ''v1.2.4''],
       Shell [''git'', ''push'', ''origin'', ''main'', ''--tags''],
       FsWriteFile ''package.json''
         (JObj [(''name'', JStr ''app''), (''version'', JStr ''1.2.4''), (''private'', JBool True)]),
       UpdateAppStatus Active, ConsoleLog ''CHANGE STATUS TO ACTIVE''],
      Resolved)"
  using failing_run [of fresh] by (simp add: fresh_def failing_trace_def prompt_text_def)

subsection \<open>C4: a successful build reports Active\<close>

text \<open>
  C4. When the build exits with 0, the hook resolves and calls
  \<open>updateAppStatus("Active")\<close> after the release attempt, whatever happens inside
  the \<open>try\<close>: if a step of the release throws (reading or parsing the manifest,
  the version property, the session lookup, a git command, the write), the trace up
  to that step is followed by the log of the \<open>catch\<close> and then by the status call;
  nothing is rethrown.
\<close>

theorem successful_build_emits_active:
  assumes "etype ev = ''session.idle''" and "exitCode (w_build w) = Some 0"
  shows "event_hook cs w ev =
           (cs,
            [Shell [''pnpm'', ''build'']] @ fst (try_body w (sessionID ev))
              @ (case snd (try_body w (sessionID ev)) of
                   Inl e \<Rightarrow> [ConsoleError ''Failed to push to git'']
                 | Inr u \<Rightarrow> [])
              @ [UpdateAppStatus Active, ConsoleLog ''CHANGE STATUS TO ACTIVE''],
            Resolved)"
  using assms by (simp add: event_hook_def release_and_activate_eq try_catch_eq)

theorem successful_build_emits_active_witness:
  "etype (idle ''s1'') = ''session.idle'' \<and> exitCode (w_build world_push_rejected) = Some 0 \<and>
   snd (try_body world_push_rejected ''s1'') = Inl ShellError \<and>
   event_hook fresh world_push_rejected (idle ''s1'') =
     (fresh,
      [Shell [''pnpm'', ''build''], FsReadFile ''package.json'', SessionGet ''s1'',
       Shell [''git'', ''config'', ''user.name'', ''Taylor AI''],
       Shell [''git'', ''config'', ''user.email'', ''ai@taylordb.io''],
       Shell [''git'', ''add'', ''.''],
       Shell [''git'', ''commit'', ''-m'', ''feat: release version v1.2.4''],
       Shell [''git'', ''tag'', ''v1.2.4''],
       Shell [''git'', ''push'', ''origin'', ''main'', ''--tags''],
       ConsoleError ''Failed to push to git'',
       UpdateAppStatus Active, ConsoleLog ''CHANGE STATUS TO ACTIVE''],
      Resolved)"
proof -
  have idle: "etype (idle ''s1'') = ''session.idle''"
    by (simp add: idle_def)
  have ok: "exitCode (w_build world_push_rejected) = Some 0"
    by (simp add: example_defs)
  have body: "try_body world_push_rejected ''s1'' =
     ([FsReadFile ''package.json'', SessionGet ''s1'',
       Shell [''git'', ''config'', ''user.name'', ''Taylor AI''],
       Shell [''git'', ''config'', ''user.email'', ''ai@taylordb.io''],
       Shell [''git'', ''add'', ''.''],
       Shell [''git'', ''commit'', ''-m'', ''feat: release version v1.2.4''],
       Shell [''git'', ''tag'', ''v1.2.4''],
       Shell [''git'', ''push'', ''origin'', ''main'', ''--tags'']], Inl ShellError)"
    by (simp add: body_defs example_defs version_defs)
  have sid: "sessionID (idle ''s1'') = ''s1''"
    by (simp add: idle_def)
  show ?thesis
    using successful_build_emits_active [OF idle ok, of fresh] idle ok
    by (simp add: body sid)
qed

subsection \<open>C5: the next version\<close>

text \<open>
  C5. When the build succeeds, the manifest is an object whose \<open>version\<close> is a string
  of at least three dot-separated runs of decimal digits (each up to
  \<open>Number.MAX_SAFE_INTEGER\<close>), and every collaborator succeeds, the new version is
  the first number, the second number and the successor of the third: read back, its
  three numbers are major, minor and patch + 1. The hook tags \<open>v\<close> followed by the new
  version and writes the manifest back with the \<open>version\<close> property replaced: the
  keys keep their order and every other property is unchanged. Version 1.2.3 gives
  1.2.4, and version 2.0.9 gives 2.0.10.
\<close>

theorem release_bumps_patch:
  assumes "etype ev = ''session.idle''"
    and "exitCode (w_build w) = Some 0"
    and "w_manifest w = Inr (JObj props)"
    and "map_of props ''version'' = Some (JStr v)"
    and "split_dot v = major # minor # patch # others"
    and "plain_decimal major" and "plain_decimal minor" and "plain_decimal patch"
    and "w_session w = Inr session"
    and "\<forall>cmd. w_shell w cmd"
    and "w_writeFile w = Inr ()"
  shows "newVersion w v =
           decimal_text (digits_val major) @ ''.'' @ decimal_text (digits_val minor) @ ''.''
             @ decimal_text (digits_val patch + 1)
         \<and> map digits_val (split_dot (newVersion w v)) =
             [digits_val major, digits_val minor, digits_val patch + 1]
         \<and> event_hook cs w ev =
             (cs,
              [Shell [''pnpm'', ''build''], FsReadFile ''package.json'', SessionGet (sessionID ev),
               Shell [''git'', ''config'', ''user.name'', ''Taylor AI''],
               Shell [''git'', ''config'', ''user.email'', ''ai@taylordb.io''],
               Shell [''git'', ''add'', ''.''],
               Shell [''git'', ''commit'', ''-m'', commitMessage session (newVersion w v)],
               Shell [''git'', ''tag'', ''v'' @ newVersion w v],
               Shell [''git'', ''push'', ''origin'', ''main'', ''--tags''],
               FsWriteFile ''package.json''
                 (JObj (set_prop ''version'' (JStr (newVersion w v)) props)),
               UpdateAppStatus Active, ConsoleLog ''CHANGE STATUS TO ACTIVE''],
              Resolved)
         \<and> map fst (set_prop ''version'' (JStr (newVersion w v)) props) = map fst props
         \<and> filter (\<lambda>p. fst p \<noteq> ''version'') (set_prop ''version'' (JStr (newVersion w v)) props)
             = filter (\<lambda>p. fst p \<noteq> ''version'') props
         \<and> map_of (set_prop ''version'' (JStr (newVersion w v)) props) ''version''
             = Some (JStr (newVersion w v))
         \<and> newVersion w ''1.2.3'' = ''1.2.4''
         \<and> newVersion w ''2.0.9'' = ''2.0.10''"
proof -
  have nv: "newVersion w v =
           decimal_text (digits_val major) @ ''.'' @ decimal_text (digits_val minor) @ ''.''
             @ decimal_text (digits_val patch + 1)"
    using assms(5-8) by (rule newVersion_plain)
  have triple: "map digits_val (split_dot (newVersion w v)) =
             [digits_val major, digits_val minor, digits_val patch + 1]"
    unfolding nv by (simp only: split_dot_triple list.map digits_val_decimal_text)
  have run: "event_hook cs w ev =
             (cs,
              [Shell [''pnpm'', ''build''], FsReadFile ''package.json'', SessionGet (sessionID ev),
               Shell [''git'', ''config'', ''user.name'', ''Taylor AI''],
               Shell [''git'', ''config'', ''user.email'', ''ai@taylordb.io''],
               Shell [''git'', ''add'', ''.''],
               Shell [''git'', ''commit'', ''-m'', commitMessage session (newVersion w v)],
               Shell [''git'', ''tag'', ''v'' @ newVersion w v],
               Shell [''git'', ''push'', ''origin'', ''main'', ''--tags''],
               FsWriteFile ''package.json''
                 (JObj (set_prop ''version'' (JStr (newVersion w v)) props)),
               UpdateAppStatus Active, ConsoleLog ''CHANGE STATUS TO ACTIVE''],
              Resolved)"
    using assms(1-4,9-11)
    by (simp add: event_hook_def release_and_activate_eq try_catch_def try_body_def io_bind_def
        perform_def shell_def version_prop_def)
  have keys: "map fst (set_prop ''version'' (JStr (newVersion w v)) props) = map fst props"
    using assms(4) by (rule set_prop_keys)
  have ex1: "newVersion w ''1.2.3'' = ''1.2.4''"
    by (simp add: version_defs)
  have ex2: "newVersion w ''2.0.9'' = ''2.0.10''"
    by (simp add: version_defs)
  show ?thesis
    using nv triple run keys ex1 ex2 set_prop_others set_prop_lookup by blast
qed

theorem release_bumps_patch_witness:
  "etype (idle ''s1'') = ''session.idle'' \<and>
   exitCode (w_build (world_with build_ok ''2.0.9'' (Some ''Add login page''))) = Some 0 \<and>
   w_manifest (world_with build_ok ''2.0.9'' (Some ''Add login page''))
     = Inr (JObj [(''name'', JStr ''app''), (''version'', JStr ''2.0.9''), (''private'', JBool True)]) \<and>
   split_dot ''2.0.9'' = [''2'', ''0'', ''9''] \<and>
   plain_decimal ''2'' \<and> plain_decimal ''0'' \<and> plain_decimal ''9'' \<and>
   event_hook fresh (world_with build_ok ''2.0.9'' (Some ''Add login page'')) (idle ''s1'') =
     (fresh,
      [Shell [''pnpm'', ''build''], FsReadFile ''package.json'', SessionGet ''s1'',
       Shell [''git'', ''config'', ''user.name'', ''Taylor AI''],
       Shell [''git'', ''config'', ''user.email'', ''ai@taylordb.io''],
       Shell [''git'', ''add'', ''.''],
       Shell [''git'', ''commit'', ''-m'', ''Add login page''],
       Shell [''git'', ''tag'', ''v2.0.10''],
       Shell [''git'', ''push'', ''origin'', ''main'', ''--tags''],
       FsWriteFile ''package.json''
         (JObj [(''name'', JStr ''app''), (''version'', JStr ''2.0.10''), (''private'', JBool True)]),
       UpdateAppStatus Active, ConsoleLog ''CHANGE STATUS TO ACTIVE''],
      Resolved)"
proof -
  let ?w = "world_with build_ok ''2.0.9'' (Some ''Add login page'')"
  let ?props = "[(''name'', JStr ''app''), (''version'', JStr ''2.0.9''), (''private'', JBool True)]"
  have h1: "etype (idle ''s1'') = ''session.idle''"
    by (simp add: idle_def)
  have h2: "exitCode (w_build ?w) = Some 0"
    by (simp add: example_defs)
  have h3: "w_manifest ?w = Inr (JObj ?props)"
    by (simp add: example_defs)
  have h4: "map_of ?props ''version'' = Some (JStr ''2.0.9'')"
    by simp
  have h5: "split_dot ''2.0.9'' = ''2'' # ''0'' # ''9'' # []"
    by simp
  have h6: "plain_decimal ''2''" "plain_decimal ''0''" "plain_decimal ''9''"
    by (simp_all add: version_defs)
  have h7: "w_session ?w = Inr \<lparr>data = Some \<lparr>title = Some ''Add login page''\<rparr>\<rparr>"
    by (simp add: example_defs)
  have h8: "\<forall>cmd. w_shell ?w cmd"
    by (simp add: example_defs)
  have h9: "w_writeFile ?w = Inr ()"
    by (simp add: example_defs)
  have sid: "sessionID (idle ''s1'') = ''s1''"
    by (simp add: idle_def)
  note r = release_bumps_patch [OF h1 h2 h3 h4 h5 h6 h7 h8 h9, of fresh]
  have nv: "newVersion ?w ''2.0.9'' = ''2.0.10''"
    using r by (elim conjE)
  have run: "event_hook fresh ?w (idle ''s1'') =
     (fresh,
      [Shell [''pnpm'', ''build''], FsReadFile ''package.json'', SessionGet (sessionID (idle ''s1'')),
       Shell [''git'', ''config'', ''user.name'', ''Taylor AI''],
       Shell [''git'', ''config'', ''user.email'', ''ai@taylordb.io''],
       Shell [''git'', ''add'', ''.''],
       Shell [''git'', ''commit'', ''-m'',
              commitMessage \<lparr>data = Some \<lparr>title = Some ''Add login page''\<rparr>\<rparr>
                (newVersion ?w ''2.0.9'')],
       Shell [''git'', ''tag'', ''v'' @ newVersion ?w ''2.0.9''],
       Shell [''git'', ''push'', ''origin'', ''main'', ''--tags''],
       FsWriteFile ''package.json''
         (JObj (set_prop ''version'' (JStr (newVersion ?w ''2.0.9'')) ?props)),
       UpdateAppStatus Active, ConsoleLog ''CHANGE STATUS TO ACTIVE''],
      Resolved)"
    using r by (elim conjE)
  show ?thesis
    using h1 h2 h3 h5 h6 by (simp add: run nv sid commitMessage_def)
qed

subsection \<open>C6: the commit message\<close>

text \<open>
  C6, as stated, fails on an empty title: \<open>??\<close> replaces only null and undefined, so
  with the title \<open>""\<close> the hook runs \<open>git commit -m ""\<close> and not the synthesized
  message.
\<close>

theorem empty_title_is_commit_message:
  "Shell [''git'', ''commit'', ''-m'', '''']
     \<in> set (fst (snd (event_hook fresh (world_with build_ok ''1.2.3'' (Some '''')) (idle ''s1''))))
   \<and> Shell [''git'', ''commit'', ''-m'', ''feat: release version v1.2.4'']
     \<notin> set (fst (snd (event_hook fresh (world_with build_ok ''1.2.3'' (Some '''')) (idle ''s1''))))"
  by (simp add: event_hook_def release_and_activate_eq try_catch_def body_defs example_defs
      version_defs)

text \<open>
  C6, amended. When the release reaches the commit (the manifest has a string
  \<open>version\<close>, the session lookup returns, and the three commands before the commit
  succeed), exactly one commit command is run, and its message is the session's title
  whenever the title is present, empty or not; it is
  \<open>feat: release version v\<close> followed by the new version when the session data or
  its title is undefined, for example \<open>feat: release version v1.2.4\<close> after 1.2.3.
\<close>

theorem commit_message_title_or_synthesized:
  assumes "w_manifest w = Inr (JObj props)"
    and "map_of props ''version'' = Some (JStr v)"
    and "w_session w = Inr session"
    and "w_shell w [''git'', ''config'', ''user.name'', ''Taylor AI'']"
    and "w_shell w [''git'', ''config'', ''user.email'', ''ai@taylordb.io'']"
    and "w_shell w [''git'', ''add'', ''.'']"
  shows "Shell [''git'', ''commit'', ''-m'', commitMessage session (newVersion w v)]
           \<in> set (fst (try_body w sid))
         \<and> (\<forall>m. Shell [''git'', ''commit'', ''-m'', m] \<in> set (fst (try_body w sid))
                \<longrightarrow> m = commitMessage session (newVersion w v))
         \<and> commitMessage \<lparr>data = Some \<lparr>title = Some t\<rparr>\<rparr> nv = t
         \<and> commitMessage \<lparr>data = Some \<lparr>title = None\<rparr>\<rparr> nv = ''feat: release version v'' @ nv
         \<and> commitMessage \<lparr>data = None\<rparr> nv = ''feat: release version v'' @ nv
         \<and> commitMessage \<lparr>data = None\<rparr> (newVersion w ''1.2.3'') = ''feat: release version v1.2.4''"
proof -
  obtain rest where trace: "fst (try_body w sid) =
           [FsReadFile ''package.json'', SessionGet sid,
            Shell [''git'', ''config'', ''user.name'', ''Taylor AI''],
            Shell [''git'', ''config'', ''user.email'', ''ai@taylordb.io''],
            Shell [''git'', ''add'', ''.''],
            Shell [''git'', ''commit'', ''-m'', commitMessage session (newVersion w v)]] @ rest"
    and rest: "set rest \<subseteq> {Shell [''git'', ''tag'', ''v'' @ newVersion w v],
                         Shell [''git'', ''push'', ''origin'', ''main'', ''--tags''],
                         FsWriteFile ''package.json''
                           (JObj (set_prop ''version'' (JStr (newVersion w v)) props))}"
    using try_body_upto_commit [OF assms, of sid] by blast
  have issued: "Shell [''git'', ''commit'', ''-m'', commitMessage session (newVersion w v)]
           \<in> set (fst (try_body w sid))"
    by (simp add: trace)
  have only: "m = commitMessage session (newVersion w v)"
    if "Shell [''git'', ''commit'', ''-m'', m] \<in> set (fst (try_body w sid))" for m
  proof -
    have "Shell [''git'', ''commit'', ''-m'', m] \<notin> set rest"
    proof
      assume "Shell [''git'', ''commit'', ''-m'', m] \<in> set rest"
      with rest have "Shell [''git'', ''commit'', ''-m'', m]
          \<in> {Shell [''git'', ''tag'', ''v'' @ newVersion w v],
              Shell [''git'', ''push'', ''origin'', ''main'', ''--tags''],
              FsWriteFile ''package.json''
                (JObj (set_prop ''version'' (JStr (newVersion w v)) props))}"
        by (rule subsetD)
      then show False
        by simp
    qed
    with that show ?thesis
      by (simp add: trace)
  qed
  then have only_one: "\<forall>m. Shell [''git'', ''commit'', ''-m'', m] \<in> set (fst (try_body w sid))
                \<longrightarrow> m = commitMessage session (newVersion w v)"
    by (intro allI impI)
  have present: "commitMessage \<lparr>data = Some \<lparr>title = Some t\<rparr>\<rparr> nv = t"
    by (simp add: commitMessage_def)
  have no_title: "commitMessage \<lparr>data = Some \<lparr>title = None\<rparr>\<rparr> nv = ''feat: release version v'' @ nv"
    by (simp add: commitMessage_def)
  have no_data: "commitMessage \<lparr>data = None\<rparr> nv = ''feat: release version v'' @ nv"
    by (simp add: commitMessage_def)
  have ex: "commitMessage \<lparr>data = None\<rparr> (newVersion w ''1.2.3'') = ''feat: release version v1.2.4''"
    by (simp add: commitMessage_def version_defs)
  show ?thesis
    by (intro conjI) (fact issued, fact only_one, fact present, fact no_title, fact no_data, fact ex)
qed

theorem commit_message_title_or_synthesized_witness:
  "w_manifest (world_with build_ok ''1.2.3'' (Some ''''))
     = Inr (JObj [(''name'', JStr ''app''), (''version'', JStr ''1.2.3''), (''private'', JBool True)])
   \<and> w_session (world_with build_ok ''1.2.3'' (Some '''')) = Inr \<lparr>data = Some \<lparr>title = Some ''''\<rparr>\<rparr>
   \<and> w_shell (world_with build_ok ''1.2.3'' (Some '''')) [''git'', ''add'', ''.'']
   \<and> Shell [''git'', ''commit'', ''-m'', '''']
       \<in> set (fst (try_body (world_with build_ok ''1.2.3'' (Some '''')) ''s1''))
   \<and> Shell [''git'', ''commit'', ''-m'', ''feat: release version v1.2.4'']
       \<notin> set (fst (try_body (world_with build_ok ''1.2.3'' (Some '''')) ''s1''))"
proof -
  let ?w = "world_with build_ok ''1.2.3'' (Some '''')"
  let ?props = "[(''name'', JStr ''app''), (''version'', JStr ''1.2.3''), (''private'', JBool True)]"
  have h1: "w_manifest ?w = Inr (JObj ?props)"
    by (simp add: example_defs)
  have h2: "map_of ?props ''version'' = Some (JStr ''1.2.3'')"
    by simp
  have h3: "w_session ?w = Inr \<lparr>data = Some \<lparr>title = Some ''''\<rparr>\<rparr>"
    by (simp add: example_defs)
  have h4: "w_shell ?w [''git'', ''config'', ''user.name'', ''Taylor AI'']"
    "w_shell ?w [''git'', ''config'', ''user.email'', ''ai@taylordb.io'']"
    "w_shell ?w [''git'', ''add'', ''.'']"
    by (simp_all add: example_defs)
  have msg: "commitMessage \<lparr>data = Some \<lparr>title = Some ''''\<rparr>\<rparr> (newVersion ?w ''1.2.3'') = ''''"
    by (simp add: commitMessage_def)
  note r = commit_message_title_or_synthesized [OF h1 h2 h3 h4, of "''s1''"]
  have issued: "Shell [''git'', ''commit'', ''-m'', ''''] \<in> set (fst (try_body ?w ''s1''))"
    using r [THEN conjunct1] unfolding msg .
  have only: "\<forall>m. Shell [''git'', ''commit'', ''-m'', m] \<in> set (fst (try_body ?w ''s1''))
                \<longrightarrow> m = ''''"
    using r [THEN conjunct2, THEN conjunct1] unfolding msg .
  have "Shell [''git'', ''commit'', ''-m'', ''feat: release version v1.2.4'']
         \<in> set (fst (try_body ?w ''s1''))
       \<longrightarrow> ''feat: release version v1.2.4'' = ''''"
    using only by (rule spec)
  then have other: "Shell [''git'', ''commit'', ''-m'', ''feat: release version v1.2.4'']
         \<notin> set (fst (try_body ?w ''s1''))"
    by simp
  show ?thesis
    by (intro conjI) (fact h1, fact h3, fact h4(3), fact issued, fact other)
qed

subsection \<open>C7: \<open>updateAppStatus\<close> does not throw\<close>

text \<open>
  C7, as stated, fails for an endpoint that is not configured: with the environment
  variable undefined, the \<open>parse\<close> of lines 6 to 13 throws while the module loads, so
  a call of \<open>updateAppStatus\<close> is never reached as a no-op.
\<close>

theorem unconfigured_endpoint_fails_at_load:
  "load_then_updateAppStatus None Pending = ([], Inl ZodError)"
  by (simp add: load_then_updateAppStatus_def module_init_def)

text \<open>
  C7, amended. \<open>updateAppStatus\<close> returns without an error and without an effect
  for each status, also when called twice in a row, whatever the endpoint does; in
  a module loaded with the variable set to any string this is what a call gives, and
  with the variable undefined the module fails to load with a validation error.
\<close>

theorem updateAppStatus_never_throws:
  "updateAppStatus s = ([], Inr ())
   \<and> io_bind (updateAppStatus s) (\<lambda>u. updateAppStatus s) = ([], Inr ())
   \<and> load_then_updateAppStatus (Some url) s = ([], Inr ())
   \<and> load_then_updateAppStatus None s = ([], Inl ZodError)"
  by (simp add: load_then_updateAppStatus_def module_init_def updateAppStatus_noop io_bind_def)

subsection \<open>C8: the request of \<open>updateAppStatus\<close>\<close>

text \<open>
  C8, as stated, fails: the call of \<open>axios.put\<close> is commented out, so
  \<open>updateAppStatus("Pending")\<close> sends no PUT with the body
  \<open>{"status": "Pending"}\<close> and the JSON content type.
\<close>

theorem updateAppStatus_pending_sends_no_put:
  "HttpPut ''/'' (JObj [(''status'', JStr (status_name Pending))])
       [(''Content-Type'', ''application/json'')]
     \<notin> set (fst (updateAppStatus Pending))"
  by (simp add: updateAppStatus_noop)

text \<open>
  C8, amended. For every status \<open>updateAppStatus\<close> performs no request and no other
  effect; the \<open>chat.message\<close> hook calls it with \<open>Pending\<close> and writes one line to
  the console.
\<close>

theorem updateAppStatus_sends_nothing:
  "fst (updateAppStatus s) = []
   \<and> chat_message_hook =
       ([UpdateAppStatus Pending, ConsoleLog ''CHANGE STATUS TO PENDING''], Resolved)"
  by (simp add: updateAppStatus_noop chat_message_hook_def)

subsection \<open>C9: where the counter lives\<close>

text \<open>
  C9, as stated, fails: a successful build does not remove the counter. After one
  failed build and then a successful one the counter is still 0, not undefined.
\<close>

theorem counter_survives_successful_build:
  "tries (fst (deliver fresh
      [(world_with build_fails ''1.2.3'' None, idle ''s1''),
       (world_with build_ok ''1.2.3'' None, idle ''s1'')])) = Some 0"
proof -
  have first: "fst (event_hook fresh (world_with build_fails ''1.2.3'' None) (idle ''s1''))
      = \<lparr>tries = Some 0\<rparr>"
    by (simp add: event_hook_state update_tries_def not_tries_def example_defs)
  have second: "fst (event_hook \<lparr>tries = Some 0\<rparr> (world_with build_ok ''1.2.3'' None) (idle ''s1''))
      = \<lparr>tries = Some 0\<rparr>"
    by (simp add: event_hook_state example_defs)
  show ?thesis
    unfolding deliver_state first second by simp
qed

text \<open>
  C9, amended. The retry count is the single property \<open>tries\<close> of the shared
  \<open>client.session\<close> object: the counter after a run does not depend on the session
  id of the event, so all sessions share it. It is created with the value 0 by the
  first failed build, and a successful build leaves it as it is.
\<close>

theorem tries_shared_and_kept:
  "fst (event_hook cs w (ev\<lparr>sessionID := sid\<rparr>)) = fst (event_hook cs w ev)
   \<and> (etype ev = ''session.idle'' \<and> exitCode (w_build w) \<noteq> Some 0 \<and> tries cs = None
        \<longrightarrow> tries (fst (event_hook cs w ev)) = Some 0)
   \<and> (etype ev = ''session.idle'' \<and> exitCode (w_build w) = Some 0
        \<longrightarrow> fst (event_hook cs w ev) = cs)"
  by (simp add: event_hook_state update_tries_def not_tries_def)

theorem tries_shared_and_kept_witness:
  "etype (idle ''s1'') = ''session.idle''
   \<and> exitCode (w_build (world_with build_fails ''1.2.3'' None)) \<noteq> Some 0 \<and> tries fresh = None
   \<and> tries (fst (event_hook fresh (world_with build_fails ''1.2.3'' None) (idle ''s1''))) = Some 0
   \<and> exitCode (w_build (world_with build_ok ''1.2.3'' None)) = Some 0
   \<and> fst (event_hook \<lparr>tries = Some 0\<rparr> (world_with build_ok ''1.2.3'' None) (idle ''s1''))
       = \<lparr>tries = Some 0\<rparr>
   \<and> fst (event_hook fresh (world_with build_fails ''1.2.3'' None) ((idle ''s1'')\<lparr>sessionID := ''s2''\<rparr>))
       = fst (event_hook fresh (world_with build_fails ''1.2.3'' None) (idle ''s1''))"
proof -
  have h1: "etype (idle ''s1'') = ''session.idle''"
    by (simp add: idle_def)
  have h2: "exitCode (w_build (world_with build_fails ''1.2.3'' None)) \<noteq> Some 0"
    by (simp add: example_defs)
  have h3: "tries fresh = None"
    by (simp add: fresh_def)
  have h4: "exitCode (w_build (world_with build_ok ''1.2.3'' None)) = Some 0"
    by (simp add: example_defs)
  show ?thesis
    using tries_shared_and_kept
        [where cs = fresh and w = "world_with build_fails ''1.2.3'' None" and ev = "idle ''s1''"
           and sid = "''s2''"]
      tries_shared_and_kept
        [where cs = "\<lparr>tries = Some 0\<rparr>" and w = "world_with build_ok ''1.2.3'' None"
           and ev = "idle ''s1''" and sid = "''s2''"]
      h1 h2 h3 h4
    by simp
qed

subsection \<open>C10: other events\<close>

text \<open>
  C10. For an event whose type is not \<open>session.idle\<close> the \<open>event\<close> hook returns at
  once: the trace of effects is empty (no build, no command, no file access, no
  prompt, no status call), the promise resolves, and the retry counter is unchanged.
\<close>

theorem non_idle_event_ignored:
  "etype ev \<noteq> ''session.idle'' \<Longrightarrow> event_hook cs w ev = (cs, [], Resolved)"
  by (simp add: event_hook_def)

theorem non_idle_event_ignored_witness:
  "etype \<lparr>etype = ''message.updated'', sessionID = ''s1''\<rparr> \<noteq> ''session.idle'' \<and>
   event_hook \<lparr>tries = Some 2\<rparr> (world_with build_fails ''1.2.3'' None)
     \<lparr>etype = ''message.updated'', sessionID = ''s1''\<rparr> = (\<lparr>tries = Some 2\<rparr>, [], Resolved)"
  using non_idle_event_ignored
    [of "\<lparr>etype = ''message.updated'', sessionID = ''s1''\<rparr>" "\<lparr>tries = Some 2\<rparr>"
        "world_with build_fails ''1.2.3'' None"]
  by simp

end
